theory Spec2Isabelle
  imports Main
begin

section \<open>The version-11 umbrella header\<close>

text \<open>
  The repository's one source file is \<^verbatim>\<open>pgx-pg-sys/include/pg11.h\<close>, the header handed
  to the binding generator for engine version 11. It is embedded as it stands: the list
  of its 111 lines, in file order, so that list position \<open>i\<close> holds line \<open>i + 1\<close>.
\<close>

definition pg11_h :: "string list" where
  \<open>pg11_h = [
    ''/*'',
    ''Portions Copyright 2019-2021 ZomboDB, LLC.'',
    ''Portions Copyright 2021-2022 Technology Concepts & Design, Inc. <support@tcdi.com>'',
    '''',
    ''All rights reserved.'',
    '''',
    ''Use of this source code is governed by the MIT license that can be found in the LICENSE file.'',
    ''*/'',
    ''#include "postgres.h"'',
    ''#include "pg_config.h"'',
    ''#include "funcapi.h"'',
    ''#include "miscadmin.h"'',
    ''#include "pgstat.h"'',
    '''',
    ''#include "access/amapi.h"'',
    ''#include "access/genam.h"'',
    ''#include "access/gin.h"'',
    ''#include "access/gist.h"'',
    ''#include "access/heapam.h"'',
    ''#include "access/htup.h"'',
    ''#include "access/htup_details.h"'',
    ''#include "access/reloptions.h"'',
    ''#include "access/relscan.h"'',
    ''#include "access/skey.h"'',
    ''#include "access/sysattr.h"'',
    ''#include "access/xact.h"'',
    ''#include "catalog/dependency.h"'',
    ''#include "catalog/index.h"'',
    ''#include "catalog/namespace.h"'',
    ''#include "catalog/objectaddress.h"'',
    ''#include "catalog/pg_class.h"'',
    ''#include "catalog/pg_enum.h"'',
    ''#include "catalog/pg_operator.h"'',
    ''#include "catalog/pg_proc.h"'',
    ''#include "catalog/pg_trigger.h"'',
    ''#include "catalog/pg_type.h"'',
    ''#include "commands/comment.h"'',
    ''#include "commands/dbcommands.h"'',
    ''#include "commands/defrem.h"'',
    ''#include "commands/event_trigger.h"'',
    ''#include "commands/explain.h"'',
    ''#include "commands/proclang.h"'',
    ''#include "commands/tablecmds.h"'',
    ''#include "commands/trigger.h"'',
    ''#include "commands/vacuum.h"'',
    ''#include "executor/executor.h"'',
    ''#include "executor/spi.h"'',
    ''#include "foreign/fdwapi.h"'',
    ''#include "foreign/foreign.h"'',
    ''#include "mb/pg_wchar.h"'',
    '''',
    ''#define ScanKey struct ScanKeyData *'',
    ''#include "nodes/execnodes.h"'',
    ''#undef ScanKey'',
    '''',
    ''#include "nodes/extensible.h"'',
    ''#include "nodes/makefuncs.h"'',
    ''#include "nodes/nodeFuncs.h"'',
    ''#include "nodes/nodes.h"'',
    ''#include "nodes/print.h"'',
    ''#include "nodes/relation.h"'',
    ''#include "nodes/replnodes.h"'',
    ''#include "nodes/tidbitmap.h"'',
    ''#include "nodes/value.h"'',
    ''#include "optimizer/clauses.h"'',
    ''#include "optimizer/cost.h"'',
    ''#include "optimizer/pathnode.h"'',
    ''#include "optimizer/paths.h"'',
    ''#include "optimizer/planmain.h"'',
    ''#include "optimizer/planner.h"'',
    ''#include "optimizer/restrictinfo.h"'',
    ''#include "optimizer/tlist.h"'',
    ''#include "parser/parse_func.h"'',
    ''#include "parser/parse_type.h"'',
    ''#include "parser/parser.h"'',
    ''#include "parser/parsetree.h"'',
    ''#include "postmaster/bgworker.h"'',
    ''#include "replication/output_plugin.h"'',
    ''#include "rewrite/rewriteHandler.h"'',
    ''#include "storage/block.h"'',
    ''#include "storage/bufmgr.h"'',
    ''#include "storage/buffile.h"'',
    ''#include "storage/ipc.h"'',
    ''#include "storage/itemptr.h"'',
    ''#include "storage/lwlock.h"'',
    ''#include "storage/procarray.h"'',
    ''#include "tcop/tcopprot.h"'',
    ''#include "tcop/utility.h"'',
    ''#include "tsearch/ts_public.h"'',
    ''#include "tsearch/ts_utils.h"'',
    ''#include "utils/builtins.h"'',
    ''#include "utils/date.h"'',
    ''#include "utils/datetime.h"'',
    '''',
    ''#define double float8'',
    ''#include "utils/geo_decls.h"'',
    ''#undef double'',
    '''',
    ''#include "utils/guc.h"'',
    ''#include "utils/json.h"'',
    ''#include "utils/jsonb.h"'',
    ''#include "utils/lsyscache.h"'',
    ''#include "utils/memutils.h"'',
    ''#include "utils/palloc.h"'',
    ''#include "utils/rel.h"'',
    ''#include "utils/relcache.h"'',
    ''#include "utils/sampling.h"'',
    ''#include "utils/selfuncs.h"'',
    ''#include "utils/snapmgr.h"'',
    ''#include "utils/syscache.h"'',
    ''#include "utils/typcache.h"''
  ]\<close>

subsection \<open>Reading a line\<close>

text \<open>
  A line is cut into words at blanks and tabs. The accumulator holds the word being
  read, last character first.
\<close>

fun split_ws :: "string \<Rightarrow> string \<Rightarrow> string list" where
  "split_ws w [] = (if w = [] then [] else [rev w])"
| "split_ws w (c # cs) =
     (if c = CHR '' '' \<or> c = CHR 0x09
      then (if w = [] then split_ws [] cs else rev w # split_ws [] cs)
      else split_ws (c # w) cs)"

datatype directive =
    Blank
  | Comment
  | Include string
  | Define string "string list"
  | Undef string
  | Other "string list"

text \<open>The file names its includes in the quoted form only; the quotes are taken off.\<close>

definition unquote :: "string \<Rightarrow> string option" where
  "unquote w =
     (if 2 \<le> length w \<and> hd w = CHR 0x22 \<and> last w = CHR 0x22
      then Some (butlast (tl w)) else None)"

text \<open>
  A line of code is an \<^verbatim>\<open>#include\<close> of one quoted path, a \<^verbatim>\<open>#define\<close> of a name
  with its replacement words, an \<^verbatim>\<open>#undef\<close> of one name, or empty. Whatever else a
  line holds (a declaration, a conditional, any other directive) is kept as \<open>Other\<close>.
\<close>

fun classify :: "string list \<Rightarrow> directive" where
  "classify [] = Blank"
| "classify (w # ws) =
     (if w = ''#include'' then
        (case ws of
           [q] \<Rightarrow> (case unquote q of Some p \<Rightarrow> Include p | None \<Rightarrow> Other (w # ws))
         | _ \<Rightarrow> Other (w # ws))
      else if w = ''#define'' then
        (case ws of n # body \<Rightarrow> Define n body | [] \<Rightarrow> Other (w # ws))
      else if w = ''#undef'' then
        (case ws of [n] \<Rightarrow> Undef n | _ \<Rightarrow> Other (w # ws))
      else Other (w # ws))"

text \<open>
  Block comments run over lines. \<open>after_close\<close> gives what follows the first
  \<^verbatim>\<open>*/\<close> of a text, if there is one.
\<close>

fun after_close :: "string \<Rightarrow> string option" where
  "after_close [] = None"
| "after_close [c] = None"
| "after_close (c # d # cs) =
     (if c = CHR ''*'' \<and> d = CHR ''/'' then Some cs else after_close (d # cs))"

definition strip :: "string \<Rightarrow> string" where
  "strip l = dropWhile (\<lambda>c. c = CHR '' '' \<or> c = CHR 0x09) l"

definition opens_comment :: "string \<Rightarrow> bool" where
  "opens_comment l = (take 2 (strip l) = ''/*'')"

text \<open>
  The flag says whether the line starts inside a block comment. A comment that ends
  with code behind it on the same line is not taken for a comment line.
\<close>

fun parse_lines :: "bool \<Rightarrow> string list \<Rightarrow> directive list" where
  "parse_lines in_comment [] = []"
| "parse_lines in_comment (l # ls) =
     (if in_comment \<or> opens_comment l then
        (case after_close (if in_comment then l else drop 2 (strip l)) of
           None \<Rightarrow> Comment # parse_lines True ls
         | Some r \<Rightarrow>
             (if split_ws [] r = [] then Comment else Other (split_ws [] r))
               # parse_lines False ls)
      else classify (split_ws [] l) # parse_lines False ls)"

definition pg11 :: "directive list" where
  "pg11 = parse_lines False pg11_h"

subsection \<open>Renames in effect\<close>

text \<open>
  The preprocessor reads the file from top to bottom with a table of the macros
  defined so far. An \<^verbatim>\<open>#define\<close> enters the name with its replacement, an
  \<^verbatim>\<open>#undef\<close> removes it, every other line of this file leaves the table alone. Only the
  directives written in this file are followed: what an included header defines for
  itself is not part of the file.
\<close>

type_synonym macros = "(string \<times> string list) list"

fun step :: "macros \<Rightarrow> directive \<Rightarrow> macros" where
  "step env (Define n body) = (n, body) # filter (\<lambda>e. fst e \<noteq> n) env"
| "step env (Undef n) = filter (\<lambda>e. fst e \<noteq> n) env"
| "step env _ = env"

text \<open>
  The table at every point of the file: before the first line, between any two
  lines, and at the end. A file of \<open>n\<close> lines has \<open>n + 1\<close> points.
\<close>

fun points :: "macros \<Rightarrow> directive list \<Rightarrow> macros list" where
  "points env [] = [env]"
| "points env (d # ds) = env # points (step env d) ds"

fun number :: "nat \<Rightarrow> 'a list \<Rightarrow> (nat \<times> 'a) list" where
  "number n [] = []"
| "number n (x # xs) = (n, x) # number (n + 1) xs"

text \<open>
  The scope of a rename: the line of its \<^verbatim>\<open>#define\<close> and the line of the first
  \<^verbatim>\<open>#undef\<close> of the same name below it, \<open>None\<close> when the file ends without one.
\<close>

fun find_undef :: "string \<Rightarrow> (nat \<times> directive) list \<Rightarrow> nat option" where
  "find_undef n [] = None"
| "find_undef n ((j, d) # r) = (if d = Undef n then Some j else find_undef n r)"

fun scopes :: "(nat \<times> directive) list \<Rightarrow> (string \<times> nat \<times> nat option) list" where
  "scopes [] = []"
| "scopes ((i, Define n body) # r) = (n, i, find_undef n r) # scopes r"
| "scopes (_ # r) = scopes r"

text \<open>Every include of the file with its line and the names renamed while it is read.\<close>

fun includes_under :: "macros \<Rightarrow> (nat \<times> directive) list \<Rightarrow> (nat \<times> string \<times> string list) list" where
  "includes_under env [] = []"
| "includes_under env ((i, Include p) # r) = (i, p, map fst env) # includes_under env r"
| "includes_under env ((i, d) # r) = includes_under (step env d) r"

fun renamed :: "nat \<times> string \<times> string list \<Rightarrow> bool" where
  "renamed (i, p, ms) = (ms \<noteq> [])"

fun include_paths :: "directive list \<Rightarrow> string list" where
  "include_paths [] = []"
| "include_paths (Include p # ds) = p # include_paths ds"
| "include_paths (_ # ds) = include_paths ds"

fun beyond_include :: "directive \<Rightarrow> bool" where
  "beyond_include Blank = False"
| "beyond_include (Include p) = False"
| "beyond_include _ = True"

fun is_comment :: "directive \<Rightarrow> bool" where
  "is_comment Comment = True"
| "is_comment _ = False"

section \<open>Version selection and the emitted module\<close>

text \<open>
  Modelled from the spec: the Version Multiplexer and its selection interface
  (sections 4.1, 4.4, 6 and 7) are not among the source files, which hold the version-11
  header only. The build enables a list of version selections; the supported versions
  and the module generated for each are given. No selection, a selection outside the
  supported set, and more than one selection are each a ConfigurationError; one
  supported selection exposes the module of that version.
\<close>

datatype selection_fault =
    NoVersion
  | UnsupportedVersion string
  | SeveralVersions "string list"

datatype error = ConfigurationError selection_fault

definition select_version :: "string list \<Rightarrow> string list \<Rightarrow> error + string" where
  "select_version supported enabled =
     (case enabled of
        [] \<Rightarrow> Inl (ConfigurationError NoVersion)
      | [v] \<Rightarrow>
          (if v \<in> set supported then Inr v
           else Inl (ConfigurationError (UnsupportedVersion v)))
      | _ \<Rightarrow> Inl (ConfigurationError (SeveralVersions enabled)))"

definition version_multiplexer ::
    "string list \<Rightarrow> (string \<Rightarrow> 'm) \<Rightarrow> string list \<Rightarrow> error + 'm" where
  "version_multiplexer supported modules enabled =
     (case select_version supported enabled of
        Inl e \<Rightarrow> Inl e
      | Inr v \<Rightarrow> Inr (modules v))"

text \<open>
  Modelled from the spec: the Binding Emitter (section 4.3) and the
  GeneratedBindingModule (section 3) are not among the source files. The emitter is
  given the C declarations reachable from the header set after macro expansion, in
  the order they are read, and the backend's translation of one declaration; the module
  carries the version tag and the mapping from C symbol name to host declaration. Where
  a name is declared more than once the mapping holds the first declaration.
\<close>

datatype decl_kind = Function | Struct | Enum | Constant

record c_decl =
  c_kind :: decl_kind
  c_name :: string
  c_text :: "string list"

record 'h binding_module =
  version_tag :: string
  symbols :: "string \<rightharpoonup> 'h"

definition emit :: "(c_decl \<Rightarrow> 'h) \<Rightarrow> string \<Rightarrow> c_decl list \<Rightarrow> 'h binding_module" where
  "emit host v ds =
     \<lparr>version_tag = v, symbols = map_of (map (\<lambda>d. (c_name d, host d)) ds)\<rparr>"

section \<open>Properties of the header\<close>

text \<open>
  The header as the reader above takes it apart, line by line: the licence comment, then
  includes, empty lines and the two renames.
\<close>

lemma pg11_parsed:
  "pg11 =
     [
      Comment,
      Comment,
      Comment,
      Comment,
      Comment,
      Comment,
      Comment,
      Comment,
      Include ''postgres.h'',
      Include ''pg_config.h'',
      Include ''funcapi.h'',
      Include ''miscadmin.h'',
      Include ''pgstat.h'',
      Blank,
      Include ''access/amapi.h'',
      Include ''access/genam.h'',
      Include ''access/gin.h'',
      Include ''access/gist.h'',
      Include ''access/heapam.h'',
      Include ''access/htup.h'',
      Include ''access/htup_details.h'',
      Include ''access/reloptions.h'',
      Include ''access/relscan.h'',
      Include ''access/skey.h'',
      Include ''access/sysattr.h'',
      Include ''access/xact.h'',
      Include ''catalog/dependency.h'',
      Include ''catalog/index.h'',
      Include ''catalog/namespace.h'',
      Include ''catalog/objectaddress.h'',
      Include ''catalog/pg_class.h'',
      Include ''catalog/pg_enum.h'',
      Include ''catalog/pg_operator.h'',
      Include ''catalog/pg_proc.h'',
      Include ''catalog/pg_trigger.h'',
      Include ''catalog/pg_type.h'',
      Include ''commands/comment.h'',
      Include ''commands/dbcommands.h'',
      Include ''commands/defrem.h'',
      Include ''commands/event_trigger.h'',
      Include ''commands/explain.h'',
      Include ''commands/proclang.h'',
      Include ''commands/tablecmds.h'',
      Include ''commands/trigger.h'',
      Include ''commands/vacuum.h'',
      Include ''executor/executor.h'',
      Include ''executor/spi.h'',
      Include ''foreign/fdwapi.h'',
      Include ''foreign/foreign.h'',
      Include ''mb/pg_wchar.h'',
      Blank,
      Define ''ScanKey'' [''struct'', ''ScanKeyData'', ''*''],
      Include ''nodes/execnodes.h'',
      Undef ''ScanKey'',
      Blank,
      Include ''nodes/extensible.h'',
      Include ''nodes/makefuncs.h'',
      Include ''nodes/nodeFuncs.h'',
      Include ''nodes/nodes.h'',
      Include ''nodes/print.h'',
      Include ''nodes/relation.h'',
      Include ''nodes/replnodes.h'',
      Include ''nodes/tidbitmap.h'',
      Include ''nodes/value.h'',
      Include ''optimizer/clauses.h'',
      Include ''optimizer/cost.h'',
      Include ''optimizer/pathnode.h'',
      Include ''optimizer/paths.h'',
      Include ''optimizer/planmain.h'',
      Include ''optimizer/planner.h'',
      Include ''optimizer/restrictinfo.h'',
      Include ''optimizer/tlist.h'',
      Include ''parser/parse_func.h'',
      Include ''parser/parse_type.h'',
      Include ''parser/parser.h'',
      Include ''parser/parsetree.h'',
      Include ''postmaster/bgworker.h'',
      Include ''replication/output_plugin.h'',
      Include ''rewrite/rewriteHandler.h'',
      Include ''storage/block.h'',
      Include ''storage/bufmgr.h'',
      Include ''storage/buffile.h'',
      Include ''storage/ipc.h'',
      Include ''storage/itemptr.h'',
      Include ''storage/lwlock.h'',
      Include ''storage/procarray.h'',
      Include ''tcop/tcopprot.h'',
      Include ''tcop/utility.h'',
      Include ''tsearch/ts_public.h'',
      Include ''tsearch/ts_utils.h'',
      Include ''utils/builtins.h'',
      Include ''utils/date.h'',
      Include ''utils/datetime.h'',
      Blank,
      Define ''double'' [''float8''],
      Include ''utils/geo_decls.h'',
      Undef ''double'',
      Blank,
      Include ''utils/guc.h'',
      Include ''utils/json.h'',
      Include ''utils/jsonb.h'',
      Include ''utils/lsyscache.h'',
      Include ''utils/memutils.h'',
      Include ''utils/palloc.h'',
      Include ''utils/rel.h'',
      Include ''utils/relcache.h'',
      Include ''utils/sampling.h'',
      Include ''utils/selfuncs.h'',
      Include ''utils/snapmgr.h'',
      Include ''utils/syscache.h'',
      Include ''utils/typcache.h''
     ]"
  by code_simp

text \<open>
  Claim C1. Every rename opened in the header is closed, and no two overlap: the
  \<^verbatim>\<open>#define\<close> of \<open>ScanKey\<close> on line 52 has its \<^verbatim>\<open>#undef\<close> on line 54, the one of
  \<open>double\<close> on line 95 has its \<^verbatim>\<open>#undef\<close> on line 97, and these are all the renames
  of the file; the first scope ends before the second begins; at none of the 112 points
  of the file is more than one rename in the table, and at the end of the file the
  table is empty.
\<close>

theorem pg11_renames_closed_and_disjoint:
  "scopes (number 1 pg11) = [(''ScanKey'', 52, Some 54), (''double'', 95, Some 97)]
   \<and> map (map fst) (points [] pg11) =
       replicate 52 [] @ replicate 2 [''ScanKey''] @ replicate 41 []
         @ replicate 2 [''double''] @ replicate 15 []
   \<and> filter (\<lambda>env. 1 < length env) (points [] pg11) = []
   \<and> last (points [] pg11) = []"
  by code_simp

text \<open>
  Claim C2. Each rename is minimally scoped. Lines 52 to 54 are the \<^verbatim>\<open>#define\<close> of
  \<open>ScanKey\<close>, the include of \<^verbatim>\<open>nodes/execnodes.h\<close> and the \<^verbatim>\<open>#undef\<close>, one after the
  other; lines 95 to 97 are the same for \<open>double\<close> around \<^verbatim>\<open>utils/geo_decls.h\<close>. These
  two includes are the only ones read with a rename in the table, each with its own
  rename alone; the other 92 includes are read with an empty table.
\<close>

theorem pg11_renames_minimally_scoped:
  "take 3 (drop 51 pg11) =
     [Define ''ScanKey'' [''struct'', ''ScanKeyData'', ''*''],
      Include ''nodes/execnodes.h'',
      Undef ''ScanKey'']
   \<and> take 3 (drop 94 pg11) =
     [Define ''double'' [''float8''],
      Include ''utils/geo_decls.h'',
      Undef ''double'']
   \<and> filter renamed (includes_under [] (number 1 pg11)) =
     [(53, ''nodes/execnodes.h'', [''ScanKey'']),
      (96, ''utils/geo_decls.h'', [''double''])]
   \<and> length (filter (\<lambda>x. snd (snd x) = []) (includes_under [] (number 1 pg11))) = 92"
  by code_simp

text \<open>
  Claim C5. The header is a list of includes with two scoped work-arounds and nothing
  else. Its first eight lines are the licence comment. Of the 103 lines below it, the
  ones that are neither empty nor an include are exactly four, in this order: the
  \<^verbatim>\<open>#define\<close> and \<^verbatim>\<open>#undef\<close> of \<open>ScanKey\<close> and the \<^verbatim>\<open>#define\<close> and \<^verbatim>\<open>#undef\<close> of
  \<open>double\<close>. No line of the file is a declaration, a conditional or any other
  directive, and the includes are 94 different paths.
\<close>

theorem pg11_only_includes_and_two_renames:
  "length pg11 = 111
   \<and> take 8 pg11 = replicate 8 Comment
   \<and> filter beyond_include (drop 8 pg11) =
     [Define ''ScanKey'' [''struct'', ''ScanKeyData'', ''*''],
      Undef ''ScanKey'',
      Define ''double'' [''float8''],
      Undef ''double'']
   \<and> length (include_paths pg11) = 94
   \<and> distinct (include_paths pg11)"
  by code_simp

text \<open>
  Claim C9. The root header \<^verbatim>\<open>postgres.h\<close> is the first include of the file and
  \<^verbatim>\<open>pg_config.h\<close> the second, then \<^verbatim>\<open>funcapi.h\<close>, \<^verbatim>\<open>miscadmin.h\<close> and \<^verbatim>\<open>pgstat.h\<close>.
  Only the licence comment stands above the root header, so no directive and no other
  include is read before it: each of the other 93 includes comes after it.
\<close>

theorem pg11_root_header_first:
  "take 5 (include_paths pg11) =
     [''postgres.h'', ''pg_config.h'', ''funcapi.h'', ''miscadmin.h'', ''pgstat.h'']
   \<and> take 2 (dropWhile is_comment pg11) = [Include ''postgres.h'', Include ''pg_config.h'']
   \<and> takeWhile (\<lambda>p. p \<noteq> ''postgres.h'') (include_paths pg11) = []
   \<and> length (dropWhile (\<lambda>p. p = ''postgres.h'') (include_paths pg11)) = 93
   \<and> filter (\<lambda>p. p = ''postgres.h'') (include_paths pg11) = [''postgres.h'']"
  by code_simp

section \<open>Properties of version selection and emission\<close>

text \<open>
  Claim C7. Enabling more than one version selection is a ConfigurationError: the
  multiplexer returns the error for every list of two or more selections, whatever the
  supported versions and modules are, so it never picks one of them. Whenever it does
  expose a module, exactly one version was selected, that version is supported, and the
  module exposed is the module of that version.
\<close>

theorem several_selections_configuration_error:
  "(2 \<le> length enabled \<longrightarrow>
      version_multiplexer supported modules enabled
        = Inl (ConfigurationError (SeveralVersions enabled)))
   \<and> (\<forall>m. version_multiplexer supported modules enabled = Inr m \<longrightarrow>
        (\<exists>v. enabled = [v] \<and> v \<in> set supported \<and> m = modules v))"
proof (cases enabled)
  case Nil
  then show ?thesis
    by (simp add: version_multiplexer_def select_version_def)
next
  case (Cons v rest)
  then show ?thesis
    by (cases rest) (auto simp: version_multiplexer_def select_version_def)
qed

theorem several_selections_configuration_error_witness:
  "2 \<le> length [''11'', ''12'']
   \<and> version_multiplexer [''11'', ''12''] (\<lambda>v. ''pg'' @ v) [''11'', ''12'']
       = Inl (ConfigurationError (SeveralVersions [''11'', ''12'']))
   \<and> version_multiplexer [''11'', ''12''] (\<lambda>v. ''pg'' @ v) [''11''] = Inr ''pg11''
   \<and> (\<exists>v. [''11''] = [v] \<and> v \<in> set [''11'', ''12''] \<and> ''pg11'' = ''pg'' @ v)"
proof -
  have two: "2 \<le> length [''11'', ''12'']"
    by simp
  have one: "version_multiplexer [''11'', ''12''] (\<lambda>v. ''pg'' @ v) [''11''] = Inr ''pg11''"
    by (simp add: version_multiplexer_def select_version_def)
  from several_selections_configuration_error
         [of "[''11'', ''12'']" "[''11'', ''12'']" "\<lambda>v. ''pg'' @ v"] two
  have both: "version_multiplexer [''11'', ''12''] (\<lambda>v. ''pg'' @ v) [''11'', ''12'']
       = Inl (ConfigurationError (SeveralVersions [''11'', ''12'']))"
    by blast
  from several_selections_configuration_error
         [of "[''11'']" "[''11'', ''12'']" "\<lambda>v. ''pg'' @ v"] one
  have "\<exists>v. [''11''] = [v] \<and> v \<in> set [''11'', ''12''] \<and> ''pg11'' = ''pg'' @ v"
    by blast
  with two one both show ?thesis
    by blast
qed

lemma emit_insert:
  assumes fresh: "c_name d \<notin> set (map c_name (xs @ ys))"
  shows "symbols (emit host v (xs @ d # ys))
           = (symbols (emit host v (xs @ ys)))(c_name d \<mapsto> host d)"
proof -
  have "c_name d \<notin> dom (map_of (map (\<lambda>d. (c_name d, host d)) xs))"
    using fresh by (auto simp: dom_map_of_conv_image_fst)
  then show ?thesis
    by (simp add: emit_def map_add_upd_left)
qed

text \<open>
  Claim C8. When the reachable declarations gain one declaration whose name was not
  declared before, anywhere in the order, the regenerated module is the previous
  module with that one symbol added: every symbol emitted before is still there with
  the same host declaration, the symbols are the previous ones and the new name, the
  new name was not among them, and the version tag is the same.
\<close>

theorem emit_new_declaration_superset:
  assumes fresh: "c_name d \<notin> set (map c_name (xs @ ys))"
  shows "symbols (emit host v (xs @ d # ys))
           = (symbols (emit host v (xs @ ys)))(c_name d \<mapsto> host d)
     \<and> (\<forall>s h. symbols (emit host v (xs @ ys)) s = Some h
            \<longrightarrow> symbols (emit host v (xs @ d # ys)) s = Some h)
     \<and> dom (symbols (emit host v (xs @ d # ys)))
           = insert (c_name d) (dom (symbols (emit host v (xs @ ys))))
     \<and> symbols (emit host v (xs @ ys)) (c_name d) = None
     \<and> version_tag (emit host v (xs @ d # ys)) = version_tag (emit host v (xs @ ys))"
proof -
  let ?old = "symbols (emit host v (xs @ ys))"
  let ?new = "symbols (emit host v (xs @ d # ys))"
  have absent: "?old (c_name d) = None"
    using fresh
    by (auto simp: emit_def map_of_eq_None_iff image_iff simp del: map_of_append)
  have upd: "?new = ?old(c_name d \<mapsto> host d)"
    using fresh by (rule emit_insert)
  have keep: "\<forall>s h. ?old s = Some h \<longrightarrow> ?new s = Some h"
    using absent upd by auto
  have "dom ?new = insert (c_name d) (dom ?old)"
    using upd by simp
  moreover have "version_tag (emit host v (xs @ d # ys)) = version_tag (emit host v (xs @ ys))"
    by (simp add: emit_def)
  ultimately show ?thesis
    using absent upd keep by blast
qed

theorem emit_new_declaration_superset_witness:
  "c_name \<lparr>c_kind = Function, c_name = ''repalloc'',
            c_text = [''void'', ''*'', ''repalloc'', ''('', ''void'', ''*'', '','', ''Size'', '')'']\<rparr>
     \<notin> set (map c_name
         ([\<lparr>c_kind = Function, c_name = ''palloc'',
            c_text = [''void'', ''*'', ''palloc'', ''('', ''Size'', '')'']\<rparr>]
          @ [\<lparr>c_kind = Function, c_name = ''pfree'',
              c_text = [''void'', ''pfree'', ''('', ''void'', ''*'', '')'']\<rparr>]))
   \<and> symbols (emit c_text ''11''
        ([\<lparr>c_kind = Function, c_name = ''palloc'',
           c_text = [''void'', ''*'', ''palloc'', ''('', ''Size'', '')'']\<rparr>]
          @ \<lparr>c_kind = Function, c_name = ''repalloc'',
             c_text = [''void'', ''*'', ''repalloc'', ''('', ''void'', ''*'', '','', ''Size'', '')'']\<rparr>
          # [\<lparr>c_kind = Function, c_name = ''pfree'',
              c_text = [''void'', ''pfree'', ''('', ''void'', ''*'', '')'']\<rparr>])) ''palloc''
       = Some [''void'', ''*'', ''palloc'', ''('', ''Size'', '')'']
   \<and> dom (symbols (emit c_text ''11''
        ([\<lparr>c_kind = Function, c_name = ''palloc'',
           c_text = [''void'', ''*'', ''palloc'', ''('', ''Size'', '')'']\<rparr>]
          @ \<lparr>c_kind = Function, c_name = ''repalloc'',
             c_text = [''void'', ''*'', ''repalloc'', ''('', ''void'', ''*'', '','', ''Size'', '')'']\<rparr>
          # [\<lparr>c_kind = Function, c_name = ''pfree'',
              c_text = [''void'', ''pfree'', ''('', ''void'', ''*'', '')'']\<rparr>])))
       = {''repalloc'', ''palloc'', ''pfree''}"
proof -
  let ?p = "\<lparr>c_kind = Function, c_name = ''palloc'',
             c_text = [''void'', ''*'', ''palloc'', ''('', ''Size'', '')'']\<rparr>"
  let ?f = "\<lparr>c_kind = Function, c_name = ''pfree'',
             c_text = [''void'', ''pfree'', ''('', ''void'', ''*'', '')'']\<rparr>"
  let ?r = "\<lparr>c_kind = Function, c_name = ''repalloc'',
             c_text = [''void'', ''*'', ''repalloc'', ''('', ''void'', ''*'', '','', ''Size'', '')'']\<rparr>"
  have fresh: "c_name ?r \<notin> set (map c_name ([?p] @ [?f]))"
    by simp
  have old: "symbols (emit c_text ''11'' ([?p] @ [?f])) ''palloc''
               = Some [''void'', ''*'', ''palloc'', ''('', ''Size'', '')'']"
    by (simp add: emit_def)
  have old_dom: "dom (symbols (emit c_text ''11'' ([?p] @ [?f]))) = {''palloc'', ''pfree''}"
    by (simp add: emit_def)
  note new = emit_new_declaration_superset [OF fresh, of c_text "''11''"]
  from new old have "symbols (emit c_text ''11'' ([?p] @ ?r # [?f])) ''palloc''
               = Some [''void'', ''*'', ''palloc'', ''('', ''Size'', '')'']"
    by blast
  moreover from new old_dom
  have "dom (symbols (emit c_text ''11'' ([?p] @ ?r # [?f]))) = {''repalloc'', ''palloc'', ''pfree''}"
    by simp
  ultimately show ?thesis
    using fresh by blast
qed

end
